theory Spec2Isabelle
  imports Main "HOL-Library.Word"
begin

section \<open>The root of an OpenAPI v3 document (openapi3/openapi3.go)\<close>

text \<open>
  The development embeds the file \<^verbatim>\<open>openapi3/openapi3.go\<close>: the root struct \<^verbatim>\<open>T\<close>,
  \<^verbatim>\<open>UnmarshalJSON\<close>, \<^verbatim>\<open>WithMinorOpenAPIVersion\<close>, \<^verbatim>\<open>AddOperation\<close>,
  \<^verbatim>\<open>AddServer\<close> and \<^verbatim>\<open>Validate\<close>. Go mutates the receiver in place; here every
  method takes the document and returns the document after the call. A pointer that may
  be \<^verbatim>\<open>nil\<close> is an \<open>option\<close> (\<open>None\<close> is \<^verbatim>\<open>nil\<close>), and so are a map and a slice,
  for which Go tells \<^verbatim>\<open>nil\<close> from empty.
\<close>

subsection \<open>Errors\<close>

text \<open>
  \<^verbatim>\<open>errors.New(msg)\<close> is \<open>New msg\<close>; \<^verbatim>\<open>fmt.Errorf("<prefix>: %w", e)\<close> is
  \<open>Errorf prefix e\<close>, an error that renders as the prefix, a colon, a space and the
  rendering of \<open>e\<close>, and that \<^verbatim>\<open>errors.Unwrap\<close> opens to \<open>e\<close>.
\<close>

datatype error = New string | Errorf string error

fun Error :: "error \<Rightarrow> string" where
  "Error (New msg) = msg"
| "Error (Errorf prefix e) = prefix @ '': '' @ Error e"

fun Unwrap :: "error \<Rightarrow> error option" where
  "Unwrap (New msg) = None"
| "Unwrap (Errorf prefix e) = Some e"

text \<open>The number of attribution layers \<^verbatim>\<open>errors.Unwrap\<close> can take off an error.\<close>

fun layers :: "error \<Rightarrow> nat" where
  "layers (New msg) = 0"
| "layers (Errorf prefix e) = Suc (layers e)"

text \<open>
  A nil receiver that is dereferenced panics, and so does an operation set under a
  method for which a path item has no slot.
\<close>

datatype panic = NilDereference | UnsupportedMethod string

subsection \<open>The nodes below the root\<close>

type_synonym uint64 = "64 word"

type_synonym Version = string

text \<open>The fields of a node that the root never reads are kept as one opaque value.\<close>

type_synonym fields = string

text \<open>
  Modelled from the spec: the node types \<^verbatim>\<open>Operation\<close>, \<^verbatim>\<open>PathItem\<close>,
  \<^verbatim>\<open>Components\<close>, \<^verbatim>\<open>Info\<close>, \<^verbatim>\<open>SecurityRequirement\<close>, \<^verbatim>\<open>Server\<close>, \<^verbatim>\<open>Tag\<close> and
  \<^verbatim>\<open>ExternalDocs\<close> are declared outside \<^verbatim>\<open>openapi3.go\<close>. By section 3 of the spec
  every node holds its own copy of the version stamp, an unsigned integer that defaults
  to the base minor version 0; a path item holds at most one operation per method.
\<close>

record Operation =
  op_fields :: fields
  op_minor :: uint64

record PathItem =
  Operations :: "string \<rightharpoonup> Operation"
  item_fields :: fields
  item_minor :: uint64

record Components =
  comp_fields :: fields
  comp_minor :: uint64

record Info =
  info_fields :: fields
  info_minor :: uint64

record SecurityRequirement =
  sec_fields :: fields
  sec_minor :: uint64

record Server =
  server_fields :: fields
  server_minor :: uint64

record Tag =
  tag_fields :: fields
  tag_minor :: uint64

record ExternalDocs =
  docs_fields :: fields
  docs_minor :: uint64

text \<open>
  \<^verbatim>\<open>Paths\<close> is a Go map from the path pattern to a \<^verbatim>\<open>*PathItem\<close>
  (\<^verbatim>\<open>make(Paths)\<close>, \<^verbatim>\<open>paths[path] = &PathItem{}\<close>): a key may hold a nil pointer.
  \<^verbatim>\<open>Servers\<close> is a slice of \<^verbatim>\<open>*Server\<close> (\<^verbatim>\<open>append(doc.Servers, server)\<close>).
\<close>

type_synonym Paths = "string \<rightharpoonup> PathItem option"
type_synonym SecurityRequirements = "SecurityRequirement list"
type_synonym Servers = "Server option list"
type_synonym Tags = "Tag list"

subsection \<open>The root struct\<close>

record T =
  ExtensionProps :: "(string \<times> string) list"
  OpenAPI :: Version
  Components :: Components
  Info :: "Info option"
  Paths :: "Paths option"
  Security :: "SecurityRequirements option"
  Servers :: "Servers option"
  Tags :: "Tags option"
  ExternalDocs :: "ExternalDocs option"
  visited :: fields
  specMinorVersion :: uint64

text \<open>The Go zero values \<^verbatim>\<open>PathItem{}\<close>, \<^verbatim>\<open>Components{}\<close> and \<^verbatim>\<open>T{}\<close>.\<close>

definition PathItem_zero :: PathItem where
  "PathItem_zero = \<lparr>Operations = Map.empty, item_fields = [], item_minor = 0\<rparr>"

definition Components_zero :: Components where
  "Components_zero = \<lparr>comp_fields = [], comp_minor = 0\<rparr>"

definition T_zero :: T where
  "T_zero = \<lparr>ExtensionProps = [], OpenAPI = [], Components = Components_zero,
     Info = None, Paths = None, Security = None, Servers = None, Tags = None,
     ExternalDocs = None, visited = [], specMinorVersion = 0\<rparr>"

subsection \<open>Validate\<close>

text \<open>
  The validators of the version string and of the child nodes, and
  \<^verbatim>\<open>WithValidationOptions\<close>, are declared outside \<^verbatim>\<open>openapi3.go\<close>: \<open>Validate\<close>
  takes them as parameters. \<open>'ctx\<close> is the \<^verbatim>\<open>context.Context\<close>, \<open>'opt\<close> a
  \<^verbatim>\<open>ValidationOption\<close>. A validator returns \<open>None\<close> for a nil error.
\<close>

record ('ctx, 'opt) validators =
  WithValidationOptions :: "'ctx \<Rightarrow> 'opt list \<Rightarrow> 'ctx"
  Version_Validate :: "'ctx \<Rightarrow> Version \<Rightarrow> error option"
  Components_Validate :: "'ctx \<Rightarrow> Components \<Rightarrow> error option"
  Info_Validate :: "'ctx \<Rightarrow> Info \<Rightarrow> error option"
  Paths_Validate :: "'ctx \<Rightarrow> Paths \<Rightarrow> error option"
  Security_Validate :: "'ctx \<Rightarrow> SecurityRequirements \<Rightarrow> error option"
  Servers_Validate :: "'ctx \<Rightarrow> Servers \<Rightarrow> error option"
  Tags_Validate :: "'ctx \<Rightarrow> Tags \<Rightarrow> error option"
  ExternalDocs_Validate :: "'ctx \<Rightarrow> ExternalDocs \<Rightarrow> error option"

text \<open>
  \<^verbatim>\<open>func (doc *T) Validate(ctx context.Context, opts ...ValidationOption) error\<close>,
  branch by branch; each \<^verbatim>\<open>wrap\<close> closure is written out where it is applied.
\<close>

definition Validate ::
  "('ctx, 'opt) validators \<Rightarrow> 'ctx \<Rightarrow> 'opt list \<Rightarrow> T \<Rightarrow> error option" where
  "Validate vs ctx0 opts doc =
    (let ctx = WithValidationOptions vs ctx0 opts in
     if OpenAPI doc = [] then
       Some (Errorf ''invalid openapi value'' (New ''must be a non-empty string''))
     else case Version_Validate vs ctx (OpenAPI doc) of
       Some err \<Rightarrow> Some (Errorf ''invalid openapi value'' err)
     | None \<Rightarrow>
     (case Components_Validate vs ctx (Components doc) of
       Some err \<Rightarrow> Some (Errorf ''invalid components'' err)
     | None \<Rightarrow>
     (case Info doc of
       None \<Rightarrow> Some (Errorf ''invalid info'' (New ''must be an object''))
     | Some v \<Rightarrow>
     (case Info_Validate vs ctx v of
       Some err \<Rightarrow> Some (Errorf ''invalid info'' err)
     | None \<Rightarrow>
     (case Paths doc of
       None \<Rightarrow> Some (Errorf ''invalid paths'' (New ''must be an object''))
     | Some v \<Rightarrow>
     (case Paths_Validate vs ctx v of
       Some err \<Rightarrow> Some (Errorf ''invalid paths'' err)
     | None \<Rightarrow>
     (case (case Security doc of None \<Rightarrow> None | Some v \<Rightarrow> Security_Validate vs ctx v) of
       Some err \<Rightarrow> Some (Errorf ''invalid security'' err)
     | None \<Rightarrow>
     (case (case Servers doc of None \<Rightarrow> None | Some v \<Rightarrow> Servers_Validate vs ctx v) of
       Some err \<Rightarrow> Some (Errorf ''invalid servers'' err)
     | None \<Rightarrow>
     (case (case Tags doc of None \<Rightarrow> None | Some v \<Rightarrow> Tags_Validate vs ctx v) of
       Some err \<Rightarrow> Some (Errorf ''invalid tags'' err)
     | None \<Rightarrow>
     (case (case ExternalDocs doc of None \<Rightarrow> None
            | Some v \<Rightarrow> ExternalDocs_Validate vs ctx v) of
       Some err \<Rightarrow> Some (Errorf ''invalid external docs'' err)
     | None \<Rightarrow> None))))))))))"

text \<open>
  The eight steps of section 4.3 of the spec, each as the outcome of its check: \<open>None\<close>
  when the step passes, the cause of the failure otherwise. These follow the spec's
  words and are compared with \<open>Validate\<close> below.
\<close>

definition openapi_check :: "('ctx, 'opt) validators \<Rightarrow> 'ctx \<Rightarrow> T \<Rightarrow> error option" where
  "openapi_check vs ctx doc =
    (if OpenAPI doc = [] then Some (New ''must be a non-empty string'')
     else Version_Validate vs ctx (OpenAPI doc))"

definition components_check :: "('ctx, 'opt) validators \<Rightarrow> 'ctx \<Rightarrow> T \<Rightarrow> error option" where
  "components_check vs ctx doc = Components_Validate vs ctx (Components doc)"

definition info_check :: "('ctx, 'opt) validators \<Rightarrow> 'ctx \<Rightarrow> T \<Rightarrow> error option" where
  "info_check vs ctx doc =
    (case Info doc of None \<Rightarrow> Some (New ''must be an object'')
     | Some v \<Rightarrow> Info_Validate vs ctx v)"

definition paths_check :: "('ctx, 'opt) validators \<Rightarrow> 'ctx \<Rightarrow> T \<Rightarrow> error option" where
  "paths_check vs ctx doc =
    (case Paths doc of None \<Rightarrow> Some (New ''must be an object'')
     | Some v \<Rightarrow> Paths_Validate vs ctx v)"

definition security_check :: "('ctx, 'opt) validators \<Rightarrow> 'ctx \<Rightarrow> T \<Rightarrow> error option" where
  "security_check vs ctx doc =
    (case Security doc of None \<Rightarrow> None | Some v \<Rightarrow> Security_Validate vs ctx v)"

definition servers_check :: "('ctx, 'opt) validators \<Rightarrow> 'ctx \<Rightarrow> T \<Rightarrow> error option" where
  "servers_check vs ctx doc =
    (case Servers doc of None \<Rightarrow> None | Some v \<Rightarrow> Servers_Validate vs ctx v)"

definition tags_check :: "('ctx, 'opt) validators \<Rightarrow> 'ctx \<Rightarrow> T \<Rightarrow> error option" where
  "tags_check vs ctx doc =
    (case Tags doc of None \<Rightarrow> None | Some v \<Rightarrow> Tags_Validate vs ctx v)"

definition docs_check :: "('ctx, 'opt) validators \<Rightarrow> 'ctx \<Rightarrow> T \<Rightarrow> error option" where
  "docs_check vs ctx doc =
    (case ExternalDocs doc of None \<Rightarrow> None | Some v \<Rightarrow> ExternalDocs_Validate vs ctx v)"

definition checks ::
  "('ctx, 'opt) validators \<Rightarrow> 'ctx \<Rightarrow> T \<Rightarrow> (string \<times> error option) list" where
  "checks vs ctx doc =
    [(''invalid openapi value'', openapi_check vs ctx doc),
     (''invalid components'', components_check vs ctx doc),
     (''invalid info'', info_check vs ctx doc),
     (''invalid paths'', paths_check vs ctx doc),
     (''invalid security'', security_check vs ctx doc),
     (''invalid servers'', servers_check vs ctx doc),
     (''invalid tags'', tags_check vs ctx doc),
     (''invalid external docs'', docs_check vs ctx doc)]"

text \<open>The first failing step of a list of steps, wrapped with the label of its field.\<close>

fun first_failure :: "(string \<times> error option) list \<Rightarrow> error option" where
  "first_failure [] = None"
| "first_failure ((label, None) # rest) = first_failure rest"
| "first_failure ((label, Some cause) # rest) = Some (Errorf label cause)"

subsection \<open>Version propagation\<close>

text \<open>
  Modelled from the spec: the \<^verbatim>\<open>WithMinorOpenAPIVersion\<close> methods of the child nodes
  are declared outside \<^verbatim>\<open>openapi3.go\<close>. By section 4.2 of the spec the operation sets
  the node's own stamp, recurses into every child that is present, and is a no-op on
  an absent (nil) node.
\<close>

definition Operation_WithMinorOpenAPIVersion ::
  "Operation option \<Rightarrow> uint64 \<Rightarrow> Operation option" where
  "Operation_WithMinorOpenAPIVersion operation minorVersion =
    (case operation of None \<Rightarrow> None
     | Some op \<Rightarrow> Some (op\<lparr>op_minor := minorVersion\<rparr>))"

definition PathItem_WithMinorOpenAPIVersion ::
  "PathItem option \<Rightarrow> uint64 \<Rightarrow> PathItem option" where
  "PathItem_WithMinorOpenAPIVersion pathItem minorVersion =
    (case pathItem of None \<Rightarrow> None
     | Some p \<Rightarrow> Some (p\<lparr>item_minor := minorVersion,
         Operations := (\<lambda>method.
           Operation_WithMinorOpenAPIVersion (Operations p method) minorVersion)\<rparr>))"

definition Paths_WithMinorOpenAPIVersion :: "Paths option \<Rightarrow> uint64 \<Rightarrow> Paths option" where
  "Paths_WithMinorOpenAPIVersion paths minorVersion =
    (case paths of None \<Rightarrow> None
     | Some ps \<Rightarrow> Some (\<lambda>path. case ps path of None \<Rightarrow> None
         | Some pathItem \<Rightarrow> Some (PathItem_WithMinorOpenAPIVersion pathItem minorVersion)))"

definition Components_WithMinorOpenAPIVersion :: "Components \<Rightarrow> uint64 \<Rightarrow> Components" where
  "Components_WithMinorOpenAPIVersion components minorVersion =
    components\<lparr>comp_minor := minorVersion\<rparr>"

definition Info_WithMinorOpenAPIVersion :: "Info option \<Rightarrow> uint64 \<Rightarrow> Info option" where
  "Info_WithMinorOpenAPIVersion info minorVersion =
    (case info of None \<Rightarrow> None | Some i \<Rightarrow> Some (i\<lparr>info_minor := minorVersion\<rparr>))"

definition Security_WithMinorOpenAPIVersion ::
  "SecurityRequirements option \<Rightarrow> uint64 \<Rightarrow> SecurityRequirements option" where
  "Security_WithMinorOpenAPIVersion security minorVersion =
    (case security of None \<Rightarrow> None
     | Some xs \<Rightarrow> Some (map (\<lambda>s. s\<lparr>sec_minor := minorVersion\<rparr>) xs))"

definition Server_WithMinorOpenAPIVersion :: "Server option \<Rightarrow> uint64 \<Rightarrow> Server option" where
  "Server_WithMinorOpenAPIVersion server minorVersion =
    (case server of None \<Rightarrow> None | Some s \<Rightarrow> Some (s\<lparr>server_minor := minorVersion\<rparr>))"

definition Servers_WithMinorOpenAPIVersion :: "Servers option \<Rightarrow> uint64 \<Rightarrow> Servers option" where
  "Servers_WithMinorOpenAPIVersion servers minorVersion =
    (case servers of None \<Rightarrow> None
     | Some xs \<Rightarrow> Some (map (\<lambda>s. Server_WithMinorOpenAPIVersion s minorVersion) xs))"

definition Tags_WithMinorOpenAPIVersion :: "Tags option \<Rightarrow> uint64 \<Rightarrow> Tags option" where
  "Tags_WithMinorOpenAPIVersion tags minorVersion =
    (case tags of None \<Rightarrow> None
     | Some xs \<Rightarrow> Some (map (\<lambda>t. t\<lparr>tag_minor := minorVersion\<rparr>) xs))"

definition ExternalDocs_WithMinorOpenAPIVersion ::
  "ExternalDocs option \<Rightarrow> uint64 \<Rightarrow> ExternalDocs option" where
  "ExternalDocs_WithMinorOpenAPIVersion e minorVersion =
    (case e of None \<Rightarrow> None | Some x \<Rightarrow> Some (x\<lparr>docs_minor := minorVersion\<rparr>))"

text \<open>
  The body of \<^verbatim>\<open>if doc != nil { ... }\<close> in \<^verbatim>\<open>WithMinorOpenAPIVersion\<close>: the root's
  stamp is stored, then each of the seven children is stamped in place.
\<close>

definition propagate :: "T \<Rightarrow> uint64 \<Rightarrow> T" where
  "propagate doc minorVersion =
    doc\<lparr>specMinorVersion := minorVersion,
        Components := Components_WithMinorOpenAPIVersion (Components doc) minorVersion,
        Info := Info_WithMinorOpenAPIVersion (Info doc) minorVersion,
        Paths := Paths_WithMinorOpenAPIVersion (Paths doc) minorVersion,
        Security := Security_WithMinorOpenAPIVersion (Security doc) minorVersion,
        Servers := Servers_WithMinorOpenAPIVersion (Servers doc) minorVersion,
        Tags := Tags_WithMinorOpenAPIVersion (Tags doc) minorVersion,
        ExternalDocs := ExternalDocs_WithMinorOpenAPIVersion (ExternalDocs doc) minorVersion\<rparr>"

text \<open>
  \<^verbatim>\<open>func (doc *T) WithMinorOpenAPIVersion(minorVersion uint64) *T\<close>: the receiver may
  be nil; the returned pointer is the receiver, here the document after the call.
\<close>

definition WithMinorOpenAPIVersion :: "T option \<Rightarrow> uint64 \<Rightarrow> T option" where
  "WithMinorOpenAPIVersion doc minorVersion =
    (case doc of None \<Rightarrow> None | Some d \<Rightarrow> Some (propagate d minorVersion))"

subsection \<open>UnmarshalJSON\<close>

text \<open>
  \<^verbatim>\<open>jsoninfo.UnmarshalStrictStruct\<close> and \<^verbatim>\<open>Version.Minor\<close> are declared outside
  \<^verbatim>\<open>openapi3.go\<close> and are parameters. The decoder fills the receiver, which is not nil,
  and returns its error; the result here is the error and the receiver after the call.
  The version is propagated in the branch \<^verbatim>\<open>err != nil\<close>, as in the source.
\<close>

definition UnmarshalJSON ::
  "(8 word list \<Rightarrow> T \<Rightarrow> error option \<times> T) \<Rightarrow> (Version \<Rightarrow> uint64) \<Rightarrow>
   T \<Rightarrow> 8 word list \<Rightarrow> error option \<times> T" where
  "UnmarshalJSON UnmarshalStrictStruct Minor doc data =
    (case UnmarshalStrictStruct data doc of
      (err, doc') \<Rightarrow>
        if err \<noteq> None then (err, propagate doc' (Minor (OpenAPI doc')))
        else (err, doc'))"

subsection \<open>AddOperation and AddServer\<close>

text \<open>
  Modelled from the spec: \<^verbatim>\<open>PathItem.SetOperation\<close> is declared outside
  \<^verbatim>\<open>openapi3.go\<close>. By section 3 of the spec a path item holds at most one operation
  for each method of a bounded, known set of method keys: the nine HTTP methods, under
  the upper-case names of \<^verbatim>\<open>net/http\<close>. By section 4.4 the operation is attached
  under the method, overwriting any operation already there; a nil operation leaves
  the slot empty. A method outside the known set has no slot: the call panics and the
  path item is not changed.
\<close>

definition known_methods :: "string list" where
  "known_methods = [''CONNECT'', ''DELETE'', ''GET'', ''HEAD'', ''OPTIONS'', ''PATCH'',
     ''POST'', ''PUT'', ''TRACE'']"

definition SetOperation ::
  "PathItem \<Rightarrow> string \<Rightarrow> Operation option \<Rightarrow> panic + PathItem" where
  "SetOperation pathItem method operation =
    (if method \<in> set known_methods
     then Inr (pathItem\<lparr>Operations := (Operations pathItem)(method := operation)\<rparr>)
     else Inl (UnsupportedMethod method))"

text \<open>
  \<^verbatim>\<open>func (doc *T) AddOperation(path string, method string, operation *Operation)\<close>.
  A nil receiver panics at \<^verbatim>\<open>doc.Paths\<close>. \<^verbatim>\<open>paths[path]\<close> is nil for a missing key
  and for a key that holds a nil pointer. The source stores the pointer
  \<^verbatim>\<open>operation\<close> in the path item and then stamps the operation through the same
  pointer, so the operation held by the path item after the call is the stamped one.
  A panic of \<^verbatim>\<open>SetOperation\<close> ends the call before the operation is stamped.
\<close>

definition AddOperation ::
  "T option \<Rightarrow> string \<Rightarrow> string \<Rightarrow> Operation option \<Rightarrow> panic + T" where
  "AddOperation doc path method operation =
    (case doc of
      None \<Rightarrow> Inl NilDereference
    | Some d \<Rightarrow>
        (let paths = (case Paths d of None \<Rightarrow> Map.empty | Some ps \<Rightarrow> ps);
             pathItem = (case paths path of Some (Some p) \<Rightarrow> p | _ \<Rightarrow> PathItem_zero)
         in case SetOperation pathItem method
                  (Operation_WithMinorOpenAPIVersion operation (specMinorVersion d)) of
              Inl e \<Rightarrow> Inl e
            | Inr pathItem' \<Rightarrow> Inr (d\<lparr>Paths := Some (paths(path \<mapsto> Some pathItem'))\<rparr>)))"

text \<open>
  \<^verbatim>\<open>func (doc *T) AddServer(server *Server)\<close>: \<^verbatim>\<open>append\<close> on a nil slice gives a
  slice of one element.
\<close>

definition AddServer :: "T option \<Rightarrow> Server option \<Rightarrow> panic + T" where
  "AddServer doc server =
    (case doc of
      None \<Rightarrow> Inl NilDereference
    | Some d \<Rightarrow>
        Inr (d\<lparr>Servers := Some ((case Servers d of None \<Rightarrow> [] | Some xs \<Rightarrow> xs) @ [server])\<rparr>))"

subsection \<open>What it means for a document to be stamped\<close>



subsection \<open>What the spec says of the validators of collections\<close>

text \<open>
  Modelled from the spec: the validators of the security list, the server list and the
  tag list are declared outside \<^verbatim>\<open>openapi3.go\<close>. By section 8 of the spec a
  present-but-empty collection never causes a failure: each of the three validators
  accepts the empty list.
\<close>

definition accepts_empty :: "('ctx, 'opt) validators \<Rightarrow> 'ctx \<Rightarrow> bool" where
  "accepts_empty vs ctx \<longleftrightarrow>
    Security_Validate vs ctx [] = None \<and> Servers_Validate vs ctx [] = None \<and>
    Tags_Validate vs ctx [] = None"

subsection \<open>Example documents and validators\<close>

text \<open>A set of validators that accepts everything, with the unit context.\<close>

definition accept_all :: "(unit, unit) validators" where
  "accept_all = \<lparr>WithValidationOptions = (\<lambda>ctx opts. ctx),
     Version_Validate = (\<lambda>ctx v. None),
     Components_Validate = (\<lambda>ctx c. None),
     Info_Validate = (\<lambda>ctx i. None),
     Paths_Validate = (\<lambda>ctx ps. None),
     Security_Validate = (\<lambda>ctx xs. None),
     Servers_Validate = (\<lambda>ctx xs. None),
     Tags_Validate = (\<lambda>ctx xs. None),
     ExternalDocs_Validate = (\<lambda>ctx e. None)\<rparr>"

text \<open>The same, but the metadata block is rejected when it has no content.\<close>

definition title_required :: "(unit, unit) validators" where
  "title_required = accept_all\<lparr>Info_Validate :=
     (\<lambda>ctx i. if info_fields i = [] then Some (New ''value of title must be a non-empty string'')
               else None)\<rparr>"

text \<open>
  A smallest document: a version string, a metadata block and an empty endpoint
  collection; the same with version 3.1.0; and the same with one operation attached.
\<close>

definition doc_minimal :: T where
  "doc_minimal = T_zero\<lparr>OpenAPI := ''3.0.3'',
     Info := Some \<lparr>info_fields = ''title'', info_minor = 0\<rparr>,
     Paths := Some Map.empty\<rparr>"

definition doc_31 :: T where
  "doc_31 = doc_minimal\<lparr>OpenAPI := ''3.1.0''\<rparr>"

definition op_list :: Operation where
  "op_list = \<lparr>op_fields = ''listPets'', op_minor = 0\<rparr>"

definition op_create :: Operation where
  "op_create = \<lparr>op_fields = ''createPet'', op_minor = 0\<rparr>"


definition doc_v1 :: T where
  "doc_v1 = T_zero\<lparr>specMinorVersion := 1\<rparr>"

definition server_example :: Server where
  "server_example = \<lparr>server_fields = ''https://example.com'', server_minor = 0\<rparr>"

section \<open>Auxiliary facts\<close>

subsection \<open>Validate is the first failing step\<close>

lemma first_failure_Cons:
  "first_failure ((label, r) # rest) =
     (case r of None \<Rightarrow> first_failure rest | Some cause \<Rightarrow> Some (Errorf label cause))"
  by (cases r) simp_all

lemma Validate_first_failure:
  "Validate vs ctx opts doc = first_failure (checks vs (WithValidationOptions vs ctx opts) doc)"
proof (cases "Info doc")
  case None
  then show ?thesis
    by (simp add: Validate_def checks_def openapi_check_def components_check_def info_check_def
        Let_def first_failure_Cons cong: option.case_cong)
next
  case info: (Some i)
  show ?thesis
  proof (cases "Paths doc")
    case None
    with info show ?thesis
      by (simp add: Validate_def checks_def openapi_check_def components_check_def
          info_check_def paths_check_def Let_def first_failure_Cons
          cong: option.case_cong)
  next
    case (Some ps)
    with info show ?thesis
      by (simp add: Validate_def checks_def openapi_check_def components_check_def
          info_check_def paths_check_def security_check_def servers_check_def tags_check_def
          docs_check_def Let_def first_failure_Cons
          cong: option.case_cong)
  qed
qed

lemma first_failure_None: "first_failure xs = None \<longleftrightarrow> (\<forall>(l, r) \<in> set xs. r = None)"
  by (induction xs rule: first_failure.induct) auto

lemma first_failure_Some:
  "first_failure xs = Some e \<Longrightarrow> \<exists>label cause. (label, Some cause) \<in> set xs \<and> e = Errorf label cause"
  by (induction xs rule: first_failure.induct) auto

lemma Validate_None_iff:
  "Validate vs ctx opts doc = None \<longleftrightarrow>
    (\<forall>(label, r) \<in> set (checks vs (WithValidationOptions vs ctx opts) doc). r = None)"
  by (simp only: Validate_first_failure first_failure_None)

subsection \<open>Stamping twice, and stamping a stamped node\<close>
















subsection \<open>AddOperation as one update of the document\<close>

lemma AddOperation_result:
  "method \<in> set known_methods \<Longrightarrow>
   AddOperation (Some d) path method operation =
     Inr (d\<lparr>Paths := Some ((case Paths d of None \<Rightarrow> Map.empty | Some ps \<Rightarrow> ps)
        (path \<mapsto> Some
           ((case (case Paths d of None \<Rightarrow> Map.empty | Some ps \<Rightarrow> ps) path of
              Some (Some p) \<Rightarrow> p | _ \<Rightarrow> PathItem_zero)
            \<lparr>Operations :=
               (Operations
                 (case (case Paths d of None \<Rightarrow> Map.empty | Some ps \<Rightarrow> ps) path of
                    Some (Some p) \<Rightarrow> p | _ \<Rightarrow> PathItem_zero))
               (method :=
                  Operation_WithMinorOpenAPIVersion operation (specMinorVersion d))\<rparr>)))\<rparr>)"
  by (simp add: AddOperation_def SetOperation_def Let_def)

lemma AddOperation_unsupported:
  "method \<notin> set known_methods \<Longrightarrow>
   AddOperation (Some d) path method operation = Inl (UnsupportedMethod method)"
  by (simp add: AddOperation_def SetOperation_def Let_def)

lemma AddOperation_Inr_known:
  "AddOperation (Some d) path method operation = Inr d1 \<Longrightarrow> method \<in> set known_methods"
  by (cases "method \<in> set known_methods") (simp_all add: AddOperation_unsupported)

lemma AddOperation_twice:
  "AddOperation (Some d) path method a = Inr d1 \<Longrightarrow>
   AddOperation (Some d1) path method b = AddOperation (Some d) path method b"
  by (frule AddOperation_Inr_known) (auto simp add: AddOperation_result)

section \<open>Decoding\<close>

text \<open>
  C1. After a decode the version parsed from the \<^verbatim>\<open>openapi\<close> string is to be
  propagated to the root and to every node below it. \<open>UnmarshalJSON\<close> propagates in
  the branch \<^verbatim>\<open>err != nil\<close> only: when the decoder succeeds the result is the decoded
  document as the decoder left it, and when the decoder fails the partly decoded
  document is stamped. For a decoder that succeeds with a document of version 3.1.0
  whose stamp is 0, and a \<^verbatim>\<open>Minor\<close> that reads 1 from 3.1.0, the stamp of the result
  is still 0.
\<close>

theorem UnmarshalJSON_success_not_stamped:
  "UnmarshalJSON (\<lambda>data doc. (None, dec data doc)) Minor doc data = (None, dec data doc)
   \<and> UnmarshalJSON (\<lambda>data doc. (Some e, dec data doc)) Minor doc data =
       (Some e, propagate (dec data doc) (Minor (OpenAPI (dec data doc))))
   \<and> UnmarshalJSON (\<lambda>data doc. (None, doc_31)) (\<lambda>v. if v = ''3.1.0'' then 1 else 0) T_zero data
       = (None, doc_31)
   \<and> (if OpenAPI doc_31 = ''3.1.0'' then 1 else 0) = (1 :: uint64)
   \<and> specMinorVersion doc_31 = 0"
  by (simp add: UnmarshalJSON_def doc_31_def doc_minimal_def T_zero_def)

section \<open>Properties of Validate\<close>

text \<open>
  The zero document has an empty version string, no metadata block and no endpoint
  collection. Its metadata step and its endpoint step both fail, and \<open>Validate\<close>
  reports the failure of the version string, not the one of the metadata block.
\<close>

theorem Validate_both_invalid_counterexample:
  "info_check accept_all () T_zero = Some (New ''must be an object'')
   \<and> paths_check accept_all () T_zero = Some (New ''must be an object'')
   \<and> Validate accept_all () [] T_zero
       = Some (Errorf ''invalid openapi value'' (New ''must be a non-empty string''))
   \<and> Validate accept_all () [] T_zero \<noteq> Some (Errorf ''invalid info'' (New ''must be an object''))"
  by (simp add: Validate_def info_check_def paths_check_def T_zero_def)

text \<open>
  C2. \<open>Validate\<close> runs the eight steps in the fixed order version string, component
  registry, metadata block, endpoint collection, security list, server list, tag list,
  external-docs link, and returns the first failure, wrapped with the label of its
  field; the component registry is validated whatever it holds. In particular, when
  the version string and the component registry pass and the metadata block fails,
  the result is the metadata failure whatever the endpoint collection is; and a
  document whose metadata block fails is never reported with an endpoint failure.
\<close>

theorem Validate_fixed_order:
  "Validate vs ctx opts doc = first_failure (checks vs (WithValidationOptions vs ctx opts) doc)
   \<and> map fst (checks vs (WithValidationOptions vs ctx opts) doc) =
       [''invalid openapi value'', ''invalid components'', ''invalid info'', ''invalid paths'',
        ''invalid security'', ''invalid servers'', ''invalid tags'', ''invalid external docs'']
   \<and> (openapi_check vs (WithValidationOptions vs ctx opts) doc = None \<longrightarrow>
      components_check vs (WithValidationOptions vs ctx opts) doc = None \<longrightarrow>
      info_check vs (WithValidationOptions vs ctx opts) doc = Some cause \<longrightarrow>
        Validate vs ctx opts doc = Some (Errorf ''invalid info'' cause))
   \<and> (info_check vs (WithValidationOptions vs ctx opts) doc \<noteq> None \<longrightarrow>
        Validate vs ctx opts doc \<noteq> Some (Errorf ''invalid paths'' cause'))"
proof -
  let ?c = "WithValidationOptions vs ctx opts"
  have order: "map fst (checks vs ?c doc) =
       [''invalid openapi value'', ''invalid components'', ''invalid info'', ''invalid paths'',
        ''invalid security'', ''invalid servers'', ''invalid tags'', ''invalid external docs'']"
    by (simp add: checks_def)
  have meta: "Validate vs ctx opts doc = Some (Errorf ''invalid info'' cause)"
    if "openapi_check vs ?c doc = None" "components_check vs ?c doc = None"
       "info_check vs ?c doc = Some cause"
    using that by (simp add: Validate_first_failure checks_def)
  have never: "Validate vs ctx opts doc \<noteq> Some (Errorf ''invalid paths'' cause')"
    if "info_check vs ?c doc \<noteq> None"
  proof -
    from that obtain c where c: "info_check vs ?c doc = Some c" by blast
    show ?thesis
    proof (cases "openapi_check vs ?c doc")
      case (Some a)
      then show ?thesis by (simp add: Validate_first_failure checks_def)
    next
      case None
      show ?thesis
      proof (cases "components_check vs ?c doc")
        case (Some b)
        with None show ?thesis by (simp add: Validate_first_failure checks_def)
      next
        case comp: None
        with None c show ?thesis by (simp add: Validate_first_failure checks_def)
      qed
    qed
  qed
  from order meta never show ?thesis
    using Validate_first_failure [of vs ctx opts doc] by blast
qed

text \<open>
  A document with a valid version string and neither metadata block nor endpoint
  collection: the metadata failure is the one reported.
\<close>

theorem Validate_fixed_order_witness:
  "openapi_check accept_all () (doc_minimal\<lparr>Info := None, Paths := None\<rparr>) = None
   \<and> components_check accept_all () (doc_minimal\<lparr>Info := None, Paths := None\<rparr>) = None
   \<and> info_check accept_all () (doc_minimal\<lparr>Info := None, Paths := None\<rparr>)
       = Some (New ''must be an object'')
   \<and> paths_check accept_all () (doc_minimal\<lparr>Info := None, Paths := None\<rparr>)
       = Some (New ''must be an object'')
   \<and> Validate accept_all () [] (doc_minimal\<lparr>Info := None, Paths := None\<rparr>)
       = Some (Errorf ''invalid info'' (New ''must be an object''))"
proof -
  let ?d = "doc_minimal\<lparr>Info := None, Paths := None\<rparr>"
  have ctx: "WithValidationOptions accept_all () [] = ()"
    by simp
  have h1: "openapi_check accept_all () ?d = None"
    by (simp add: openapi_check_def accept_all_def doc_minimal_def)
  have h2: "components_check accept_all () ?d = None"
    by (simp add: components_check_def accept_all_def)
  have h3: "info_check accept_all () ?d = Some (New ''must be an object'')"
    by (simp add: info_check_def)
  have h4: "paths_check accept_all () ?d = Some (New ''must be an object'')"
    by (simp add: paths_check_def)
  from Validate_fixed_order [of accept_all "()" "[]" ?d "New ''must be an object''"] h1 h2 h3
  have "Validate accept_all () [] ?d = Some (Errorf ''invalid info'' (New ''must be an object''))"
    unfolding ctx by blast
  with h1 h2 h3 h4 show ?thesis by blast
qed

text \<open>
  C3. A document whose \<^verbatim>\<open>openapi\<close> string is empty fails validation, whatever the
  validators, the context, the options and the rest of the document are: the error is
  \<^verbatim>\<open>invalid openapi value: must be a non-empty string\<close>, the missing-field error of the
  \<^verbatim>\<open>openapi\<close> field, with the root's own message as the cause. The result does not
  depend on the version validator, which is not consulted.
\<close>

theorem Validate_empty_openapi:
  "Validate vs ctx opts (doc\<lparr>OpenAPI := []\<rparr>) =
     Some (Errorf ''invalid openapi value'' (New ''must be a non-empty string''))
   \<and> Error (Errorf ''invalid openapi value'' (New ''must be a non-empty string'')) =
     ''invalid openapi value: must be a non-empty string''"
  by (simp add: Validate_def)

text \<open>
  C4. An error returned by \<open>Validate\<close> is the cause of a failing step under exactly
  one attribution layer, the label of the failing field: \<^verbatim>\<open>errors.Unwrap\<close> gives the
  cause back unchanged, the rendering is the label, a colon, a space and the rendering
  of the cause, and the error has one layer more than the cause. The cause is the
  error of the child validator, or the root's own message for an empty version string
  or an absent required field. No failure is swallowed: when any step fails,
  \<open>Validate\<close> fails.
\<close>

theorem Validate_error_provenance:
  "(Validate vs ctx opts doc = Some e \<longrightarrow>
      (\<exists>label cause. (label, Some cause) \<in> set (checks vs (WithValidationOptions vs ctx opts) doc)
         \<and> e = Errorf label cause \<and> Unwrap e = Some cause
         \<and> Error e = label @ '': '' @ Error cause \<and> layers e = Suc (layers cause)))
   \<and> ((label', Some cause') \<in> set (checks vs (WithValidationOptions vs ctx opts) doc) \<longrightarrow>
      Validate vs ctx opts doc \<noteq> None)"
proof -
  let ?cs = "checks vs (WithValidationOptions vs ctx opts) doc"
  have wrapped: "\<exists>label cause. (label, Some cause) \<in> set ?cs
         \<and> e = Errorf label cause \<and> Unwrap e = Some cause
         \<and> Error e = label @ '': '' @ Error cause \<and> layers e = Suc (layers cause)"
    if "Validate vs ctx opts doc = Some e"
  proof -
    from that have "first_failure ?cs = Some e"
      by (simp only: Validate_first_failure)
    then obtain label cause where "(label, Some cause) \<in> set ?cs" "e = Errorf label cause"
      using first_failure_Some by blast
    then show ?thesis by auto
  qed
  have kept: "Validate vs ctx opts doc \<noteq> None" if "(label', Some cause') \<in> set ?cs"
    using that unfolding Validate_None_iff by fastforce
  from wrapped kept show ?thesis by blast
qed

text \<open>A metadata block without content, under a validator that rejects it.\<close>

theorem Validate_error_provenance_witness:
  "Validate title_required () [] (doc_minimal\<lparr>Info := Some \<lparr>info_fields = [], info_minor = 0\<rparr>\<rparr>)
     = Some (Errorf ''invalid info'' (New ''value of title must be a non-empty string''))
   \<and> (''invalid info'', Some (New ''value of title must be a non-empty string''))
       \<in> set (checks title_required ()
           (doc_minimal\<lparr>Info := Some \<lparr>info_fields = [], info_minor = 0\<rparr>\<rparr>))
   \<and> Unwrap (Errorf ''invalid info'' (New ''value of title must be a non-empty string''))
       = Some (New ''value of title must be a non-empty string'')"
proof -
  let ?d = "doc_minimal\<lparr>Info := Some \<lparr>info_fields = [], info_minor = 0\<rparr>\<rparr>"
  let ?c = "New ''value of title must be a non-empty string''"
  have ctx: "WithValidationOptions title_required () [] = ()"
    by simp
  have v: "Validate title_required () [] ?d = Some (Errorf ''invalid info'' ?c)"
    by (simp add: Validate_def title_required_def accept_all_def doc_minimal_def T_zero_def)
  have m: "(''invalid info'', Some ?c) \<in> set (checks title_required () ?d)"
    by (simp add: checks_def info_check_def title_required_def accept_all_def)
  from Validate_error_provenance [of title_required "()" "[]" ?d "Errorf ''invalid info'' ?c"
      "''invalid info''" ?c] v m
  have "Unwrap (Errorf ''invalid info'' ?c) = Some ?c \<and> Validate title_required () [] ?d \<noteq> None"
    unfolding ctx by auto
  with v m show ?thesis by blast
qed

text \<open>
  A document with a valid version string, an empty component registry, an empty
  endpoint collection and a metadata block that is present: the metadata block is
  handed to its validator, which may reject it, and \<open>Validate\<close> then fails.
\<close>

theorem Validate_present_not_enough_counterexample:
  "Info (doc_minimal\<lparr>Info := Some \<lparr>info_fields = [], info_minor = 0\<rparr>\<rparr>) \<noteq> None
   \<and> Paths (doc_minimal\<lparr>Info := Some \<lparr>info_fields = [], info_minor = 0\<rparr>\<rparr>) = Some Map.empty
   \<and> Components (doc_minimal\<lparr>Info := Some \<lparr>info_fields = [], info_minor = 0\<rparr>\<rparr>) = Components_zero
   \<and> openapi_check title_required ()
        (doc_minimal\<lparr>Info := Some \<lparr>info_fields = [], info_minor = 0\<rparr>\<rparr>) = None
   \<and> Validate title_required () [] (doc_minimal\<lparr>Info := Some \<lparr>info_fields = [], info_minor = 0\<rparr>\<rparr>)
       = Some (Errorf ''invalid info'' (New ''value of title must be a non-empty string''))"
  by (simp add: Validate_def openapi_check_def title_required_def accept_all_def doc_minimal_def
      T_zero_def)

text \<open>
  C5. When the version string is non-empty and passes its validator, the component
  registry passes its validator, the metadata block is present and passes its
  validator, the endpoint collection is present and passes its validator, and each of
  the security list, the server list, the tag list and the external-docs link is
  absent or passes its validator, \<open>Validate\<close> returns nil.
\<close>

theorem Validate_succeeds:
  assumes "OpenAPI doc \<noteq> []"
    and "Version_Validate vs (WithValidationOptions vs ctx opts) (OpenAPI doc) = None"
    and "Components_Validate vs (WithValidationOptions vs ctx opts) (Components doc) = None"
    and "Info doc = Some i" and "Info_Validate vs (WithValidationOptions vs ctx opts) i = None"
    and "Paths doc = Some ps" and "Paths_Validate vs (WithValidationOptions vs ctx opts) ps = None"
    and "security_check vs (WithValidationOptions vs ctx opts) doc = None"
    and "servers_check vs (WithValidationOptions vs ctx opts) doc = None"
    and "tags_check vs (WithValidationOptions vs ctx opts) doc = None"
    and "docs_check vs (WithValidationOptions vs ctx opts) doc = None"
  shows "Validate vs ctx opts doc = None"
  using assms
  by (simp add: Validate_first_failure checks_def openapi_check_def components_check_def
      info_check_def paths_check_def)

text \<open>The smallest document passes.\<close>

theorem Validate_succeeds_witness:
  "Validate title_required () [] doc_minimal = None"
proof -
  have ctx: "WithValidationOptions title_required () [] = ()"
    by simp
  show ?thesis
    by (rule Validate_succeeds [of doc_minimal title_required "()" "[]"
          "\<lparr>info_fields = ''title'', info_minor = 0\<rparr>" Map.empty], unfold ctx)
       (simp_all add: title_required_def accept_all_def doc_minimal_def T_zero_def
          security_check_def servers_check_def tags_check_def docs_check_def)
qed

text \<open>
  C6. In a document whose version string, component registry, metadata block and
  endpoint collection pass, a security list, server list or tag list that is absent
  or present but empty, and an external-docs link that is absent, never make
  \<open>Validate\<close> fail, whatever the other optional fields are as long as they pass
  themselves. An absent field is not handed to any validator; an empty list is handed
  to its validator, which accepts it.
\<close>

theorem Validate_optional_absent_or_empty:
  assumes "openapi_check vs (WithValidationOptions vs ctx opts) doc = None"
    and "components_check vs (WithValidationOptions vs ctx opts) doc = None"
    and "info_check vs (WithValidationOptions vs ctx opts) doc = None"
    and "paths_check vs (WithValidationOptions vs ctx opts) doc = None"
    and "accepts_empty vs (WithValidationOptions vs ctx opts)"
    and "Security doc \<in> {None, Some []} \<or> security_check vs (WithValidationOptions vs ctx opts) doc = None"
    and "Servers doc \<in> {None, Some []} \<or> servers_check vs (WithValidationOptions vs ctx opts) doc = None"
    and "Tags doc \<in> {None, Some []} \<or> tags_check vs (WithValidationOptions vs ctx opts) doc = None"
    and "ExternalDocs doc = None \<or> docs_check vs (WithValidationOptions vs ctx opts) doc = None"
  shows "Validate vs ctx opts doc = None"
proof -
  let ?c = "WithValidationOptions vs ctx opts"
  from assms(5,6) have "security_check vs ?c doc = None"
    by (auto simp add: security_check_def accepts_empty_def)
  moreover from assms(5,7) have "servers_check vs ?c doc = None"
    by (auto simp add: servers_check_def accepts_empty_def)
  moreover from assms(5,8) have "tags_check vs ?c doc = None"
    by (auto simp add: tags_check_def accepts_empty_def)
  moreover from assms(9) have "docs_check vs ?c doc = None"
    by (auto simp add: docs_check_def)
  ultimately show ?thesis
    using assms(1-4) by (simp add: Validate_first_failure checks_def)
qed

text \<open>
  The smallest document with an empty security list and an empty tag list, and with
  no server list and no external-docs link.
\<close>

theorem Validate_optional_absent_or_empty_witness:
  "Validate title_required () [] (doc_minimal\<lparr>Security := Some [], Tags := Some []\<rparr>) = None"
proof -
  have ctx: "WithValidationOptions title_required () [] = ()"
    by simp
  show ?thesis
    by (rule Validate_optional_absent_or_empty, unfold ctx)
       (simp_all add: title_required_def accept_all_def doc_minimal_def T_zero_def
          openapi_check_def components_check_def info_check_def paths_check_def
          accepts_empty_def)
qed

section \<open>Properties of version propagation and of the mutation helpers\<close>



text \<open>
  The method \<^verbatim>\<open>FOO\<close> is not one for which a path item has a slot: attaching an
  operation under it to the zero document panics.
\<close>

theorem AddOperation_unknown_method_counterexample:
  "AddOperation (Some T_zero) ''/pets'' ''FOO'' (Some op_list) = Inl (UnsupportedMethod ''FOO'')"
  by (simp add: AddOperation_def SetOperation_def known_methods_def Let_def)

text \<open>
  C8. \<open>AddOperation\<close> on a document, with a method of the known set, never fails.
  Afterwards the endpoint collection exists and holds a path item under the pattern;
  the slot of the method holds the given operation stamped with the document's
  version; an existing path item keeps its other operations, its fields and its stamp,
  and a path item is created only when the pattern had none, empty but for that slot;
  the other patterns keep their path items; the keys of the collection are the old
  ones and the pattern, and nothing else in the document changes. A second call with
  the same arguments changes nothing, and a second call with another operation gives
  the document that a single call with that operation gives.
\<close>

theorem AddOperation_upserts:
  assumes known: "method \<in> set known_methods"
  shows "\<exists>d1 ps1 p1.
     AddOperation (Some d) path method operation = Inr d1
   \<and> Paths d1 = Some ps1 \<and> ps1 path = Some (Some p1)
   \<and> Operations p1 method = Operation_WithMinorOpenAPIVersion operation (specMinorVersion d)
   \<and> (\<forall>op. operation = Some op \<longrightarrow>
        Operations p1 method = Some (op\<lparr>op_minor := specMinorVersion d\<rparr>))
   \<and> (\<forall>ps p. Paths d = Some ps \<longrightarrow> ps path = Some (Some p) \<longrightarrow>
        (\<forall>m. m \<noteq> method \<longrightarrow> Operations p1 m = Operations p m)
        \<and> item_fields p1 = item_fields p \<and> item_minor p1 = item_minor p)
   \<and> ((case Paths d of None \<Rightarrow> None | Some ps \<Rightarrow> ps path) \<in> {None, Some None} \<longrightarrow>
        (\<forall>m. m \<noteq> method \<longrightarrow> Operations p1 m = None)
        \<and> item_fields p1 = [] \<and> item_minor p1 = 0)
   \<and> (\<forall>ps q. Paths d = Some ps \<longrightarrow> q \<noteq> path \<longrightarrow> ps1 q = ps q)
   \<and> (\<forall>ps. Paths d = Some ps \<longrightarrow> dom ps1 = insert path (dom ps))
   \<and> (Paths d = None \<longrightarrow> dom ps1 = {path})
   \<and> d1\<lparr>Paths := Paths d\<rparr> = d
   \<and> AddOperation (Some d1) path method operation = Inr d1
   \<and> AddOperation (Some d1) path method operation' = AddOperation (Some d) path method operation'"
proof -
  let ?ps = "case Paths d of None \<Rightarrow> Map.empty | Some ps \<Rightarrow> ps"
  let ?p = "case ?ps path of Some (Some p) \<Rightarrow> p | _ \<Rightarrow> PathItem_zero"
  let ?op = "Operation_WithMinorOpenAPIVersion operation (specMinorVersion d)"
  let ?p1 = "?p\<lparr>Operations := (Operations ?p)(method := ?op)\<rparr>"
  let ?ps1 = "?ps(path \<mapsto> Some ?p1)"
  let ?d1 = "d\<lparr>Paths := Some ?ps1\<rparr>"
  have r: "AddOperation (Some d) path method operation = Inr ?d1"
    using known by (rule AddOperation_result)
  have paths: "Paths ?d1 = Some ?ps1" "?ps1 path = Some (Some ?p1)"
    by simp_all
  have slot: "Operations ?p1 method = ?op"
    by simp
  have stamp: "\<forall>op. operation = Some op \<longrightarrow>
        Operations ?p1 method = Some (op\<lparr>op_minor := specMinorVersion d\<rparr>)"
    by (simp add: Operation_WithMinorOpenAPIVersion_def)
  have item: "\<forall>ps p. Paths d = Some ps \<longrightarrow> ps path = Some (Some p) \<longrightarrow>
        (\<forall>m. m \<noteq> method \<longrightarrow> Operations ?p1 m = Operations p m)
        \<and> item_fields ?p1 = item_fields p \<and> item_minor ?p1 = item_minor p"
    by simp
  have fresh: "(case Paths d of None \<Rightarrow> None | Some ps \<Rightarrow> ps path) \<in> {None, Some None} \<longrightarrow>
        (\<forall>m. m \<noteq> method \<longrightarrow> Operations ?p1 m = None)
        \<and> item_fields ?p1 = [] \<and> item_minor ?p1 = 0"
    by (cases "Paths d") (auto simp add: PathItem_zero_def)
  have others: "\<forall>ps q. Paths d = Some ps \<longrightarrow> q \<noteq> path \<longrightarrow> ?ps1 q = ps q"
    by simp
  have shape: "\<forall>ps. Paths d = Some ps \<longrightarrow> dom ?ps1 = insert path (dom ps)"
    by simp
  have created: "Paths d = None \<longrightarrow> dom ?ps1 = {path}"
    by simp
  have rest: "?d1\<lparr>Paths := Paths d\<rparr> = d"
    by simp
  have again: "AddOperation (Some ?d1) path method operation = Inr ?d1"
    using known by (simp add: AddOperation_result)
  have last: "AddOperation (Some ?d1) path method operation' =
      AddOperation (Some d) path method operation'"
    using r by (rule AddOperation_twice)
  show ?thesis
    apply (rule exI [of _ ?d1], rule exI [of _ ?ps1], rule exI [of _ ?p1])
    apply (intro conjI)
    apply (fact r paths slot stamp item fresh others shape created rest again last)+
    done
qed

text \<open>
  Two operations attached one after the other under \<^verbatim>\<open>GET /pets\<close> of a document
  that has no endpoint collection and is stamped with version 1: one pattern, one path
  item with the stamp 0 of a new path item, and the second operation in the slot,
  stamped with version 1.
\<close>

theorem AddOperation_upserts_witness:
  "''GET'' \<in> set known_methods
   \<and> (\<exists>d1 d2 ps p.
     AddOperation (Some doc_v1) ''/pets'' ''GET'' (Some op_list) = Inr d1
   \<and> AddOperation (Some d1) ''/pets'' ''GET'' (Some op_create) = Inr d2
   \<and> AddOperation (Some doc_v1) ''/pets'' ''GET'' (Some op_create) = Inr d2
   \<and> Paths d2 = Some ps \<and> dom ps = {''/pets''} \<and> ps ''/pets'' = Some (Some p)
   \<and> item_minor p = 0 \<and> dom (Operations p) = {''GET''}
   \<and> Operations p ''GET'' = Some (op_create\<lparr>op_minor := 1\<rparr>))"
proof -
  have known: "''GET'' \<in> set known_methods"
    by (simp add: known_methods_def)
  show ?thesis
    using AddOperation_upserts [OF known, of doc_v1 "''/pets''" "Some op_list" "Some op_create"]
    by (simp add: known AddOperation_result Operation_WithMinorOpenAPIVersion_def
        doc_v1_def T_zero_def PathItem_zero_def)
qed

text \<open>
  C9. \<open>AddServer\<close> on a document puts the server at the end of the server list: an
  absent list becomes the list of that one server, an existing list keeps its elements
  in their order before the new one, and nothing else in the document changes. The
  same server can be added again; it is then in the list twice.
\<close>

theorem AddServer_appends:
  "\<exists>d1. AddServer (Some d) server = Inr d1
   \<and> (Servers d = None \<longrightarrow> Servers d1 = Some [server])
   \<and> (\<forall>xs. Servers d = Some xs \<longrightarrow> Servers d1 = Some (xs @ [server]))
   \<and> d1\<lparr>Servers := Servers d\<rparr> = d
   \<and> (\<exists>d2 xs. AddServer (Some d1) server = Inr d2 \<and> Servers d1 = Some xs
        \<and> Servers d2 = Some (xs @ [server]))"
  by (simp add: AddServer_def)

text \<open>The same server added twice to the zero document.\<close>

theorem AddServer_appends_witness:
  "\<exists>d1 d2. AddServer (Some T_zero) (Some server_example) = Inr d1
   \<and> Servers d1 = Some [Some server_example]
   \<and> AddServer (Some d1) (Some server_example) = Inr d2
   \<and> Servers d2 = Some [Some server_example, Some server_example]"
  using AddServer_appends [of T_zero "Some server_example"]
  by (simp add: AddServer_def T_zero_def)

text \<open>
  C10. \<open>WithMinorOpenAPIVersion\<close> on a nil document does nothing and returns nil,
  for every version; it does not panic.
\<close>

theorem WithMinorOpenAPIVersion_nil: "WithMinorOpenAPIVersion None v = None"
  by (simp add: WithMinorOpenAPIVersion_def)

end
